theory Spec2Isabelle
  imports Complex_Main "HOL-Library.Word"
begin

unbundle bit_operations_syntax

section \<open>The USART driver of hardware/usart.c\<close>

text \<open>
  The driver is written for avr-gcc: \<open>int\<close> has 16 bits, \<open>uint32_t\<close> is
  \<open>unsigned long\<close>. Unsigned values are words whose arithmetic wraps around; a signed
  value is a word read with \<open>sint\<close>. The conversion of an unsigned 32-bit value to
  \<open>int32_t\<close> keeps the bit pattern (gcc reduces modulo \<open>2 ^ 32\<close>).
\<close>

type_synonym uint8_t = "8 word"
type_synonym uint16_t = "16 word"
type_synonym uint32_t = "32 word"
type_synonym int8_t = "8 word"
type_synonym int16_t = "16 word"
type_synonym int32_t = "32 word"

subsection \<open>The byte queue\<close>

text \<open>
  Modelled from the spec: the declaration of \<open>struct fifo_t\<close> (fifo module) is missing
  from the sources. The queue is a fixed-capacity queue of bytes, oldest first. The
  fields \<open>consumer_evth\<close> (a function pointer) and \<open>consumer_evtm\<close> (an event mask) are
  the two that \<open>usart_init\<close> assigns.
\<close>

datatype fifo_evth = No_evth | Usart_txfifo_evth | Other_evth nat

record fifo_t =
  content :: "uint8_t list"
  capacity :: nat
  consumer_evth :: fifo_evth
  consumer_evtm :: uint8_t

subsection \<open>What the headers and the build provide\<close>

text \<open>
  \<open>usart.c\<close> uses names that it does not define: the macro \<open>F_CPU\<close> of the build, the
  flags \<open>USART_MODE_RXEN\<close> and \<open>USART_MODE_TXEN\<close> of \<open>hardware/usart.h\<close>, the event bit
  \<open>FIFO_EVT_NEW\<close> and the functions \<open>fifo_read_one\<close> and \<open>fifo_write_one\<close> of the fifo
  module, and the bit numbers of \<open>avr/io.h\<close>. They are the fields of a record that the
  functions of the model take as their first argument. \<open>F_CPU\<close> is an unsigned 32-bit
  constant; the bit numbers are numbers of bits in 8-bit registers. A queue function
  takes the queue and returns its result with the queue it leaves behind.
\<close>

record platform =
  F_CPU :: uint32_t
  fifo_read_one :: "fifo_t \<Rightarrow> int16_t \<times> fifo_t"
  fifo_write_one :: "fifo_t \<Rightarrow> uint8_t \<Rightarrow> int8_t \<times> fifo_t"
  USART_MODE_RXEN :: uint16_t
  USART_MODE_TXEN :: uint16_t
  FIFO_EVT_NEW :: uint8_t
  UMSEL10 :: nat
  UPM10 :: nat
  USBS1 :: nat
  UCSZ10 :: nat
  UCPOL1 :: nat
  RXCIE1 :: nat
  RXEN1 :: nat
  TXCIE1 :: nat
  TXEN1 :: nat
  UDRIE1 :: nat
  UCSZ12 :: nat
  U2X1 :: nat
  TXC1 :: nat

text \<open>Every bit number names a bit of an 8-bit register.\<close>

definition bit_numbers_ok :: "platform \<Rightarrow> bool" where
  "bit_numbers_ok pf =
     (UMSEL10 pf < 8 \<and> UPM10 pf < 8 \<and> USBS1 pf < 8 \<and> UCSZ10 pf < 8 \<and> UCPOL1 pf < 8 \<and>
      RXCIE1 pf < 8 \<and> RXEN1 pf < 8 \<and> TXCIE1 pf < 8 \<and> TXEN1 pf < 8 \<and> UDRIE1 pf < 8 \<and>
      UCSZ12 pf < 8 \<and> U2X1 pf < 8 \<and> TXC1 pf < 8)"

text \<open>
  Modelled from the spec: \<open>fifo_read_one\<close> (fifo module) is missing from the sources;
  the driver requires \<open>try_pop_byte() -> Option<byte>\<close> of it. It removes and returns
  the oldest byte, and returns a negative value and leaves the queue alone when there is
  none (the driver tests \<open>byte >= 0\<close>).
\<close>

definition try_pop_byte :: "fifo_t \<Rightarrow> int16_t \<times> fifo_t" where
  "try_pop_byte fifo =
     (case content fifo of
        [] \<Rightarrow> (- 1, fifo)
      | b # bs \<Rightarrow> (ucast b, fifo\<lparr>content := bs\<rparr>))"

text \<open>
  Modelled from the spec: \<open>fifo_write_one\<close> (fifo module) is missing from the sources;
  the driver requires \<open>try_push_byte(byte) -> Result\<close> of it, a non-blocking push on a
  fixed-capacity queue. It appends the byte when there is room, and reports failure and
  leaves the queue alone when it is full. The result is \<open>0\<close> on success and negative
  on failure; the driver ignores it.
\<close>

definition try_push_byte :: "fifo_t \<Rightarrow> uint8_t \<Rightarrow> int8_t \<times> fifo_t" where
  "try_push_byte fifo b =
     (if length (content fifo) < capacity fifo
      then (0, fifo\<lparr>content := content fifo @ [b]\<rparr>)
      else (- 1, fifo))"

text \<open>
  The USART1 bit numbers of the ATmega and AT90USB data sheets, the mode flags in the two
  low bits of the mode word and the queue of the spec, at a given clock. The theorems
  below hold for every platform; this one supplies the concrete inputs.
\<close>

definition atmega :: "uint32_t \<Rightarrow> platform" where
  "atmega f_cpu =
     \<lparr>F_CPU = f_cpu, fifo_read_one = try_pop_byte, fifo_write_one = try_push_byte,
      USART_MODE_RXEN = 1, USART_MODE_TXEN = 2, FIFO_EVT_NEW = 1,
      UMSEL10 = 6, UPM10 = 4, USBS1 = 3, UCSZ10 = 1, UCPOL1 = 0,
      RXCIE1 = 7, RXEN1 = 4, TXCIE1 = 6, TXEN1 = 3, UDRIE1 = 5, UCSZ12 = 2,
      U2X1 = 1, TXC1 = 6\<rparr>"

subsection \<open>Registers and driver state\<close>

text \<open>
  The registers are volatile: every write is an event. The state holds the value of
  each register and the list of all writes, oldest first. A read of a control register
  gives the value last written. \<open>UBRR1\<close> is the 16-bit pair of \<open>UBRR1H\<close> and
  \<open>UBRR1L\<close>; the other registers have 8 bits. \<open>UDR1\<close> is two registers at one address:
  a read gives the received byte (the field \<open>UDR1\<close>), a write hands a byte to the
  transmitter and is seen in the list of writes only.
\<close>

datatype reg_write =
    Write_UCSR1A uint8_t
  | Write_UCSR1B uint8_t
  | Write_UCSR1C uint8_t
  | Write_UBRR1 uint16_t
  | Write_UDR1 uint8_t

record driver =
  UCSR1A :: uint8_t
  UCSR1B :: uint8_t
  UCSR1C :: uint8_t
  UBRR1 :: uint16_t
  UDR1 :: uint8_t
  hw_writes :: "reg_write list"
  usart_fifo_tx :: fifo_t
  usart_fifo_rx :: fifo_t

definition write_UCSR1A :: "uint8_t \<Rightarrow> driver \<Rightarrow> driver" where
  "write_UCSR1A v s = s\<lparr>UCSR1A := v, hw_writes := hw_writes s @ [Write_UCSR1A v]\<rparr>"

definition write_UCSR1B :: "uint8_t \<Rightarrow> driver \<Rightarrow> driver" where
  "write_UCSR1B v s = s\<lparr>UCSR1B := v, hw_writes := hw_writes s @ [Write_UCSR1B v]\<rparr>"

definition write_UCSR1C :: "uint8_t \<Rightarrow> driver \<Rightarrow> driver" where
  "write_UCSR1C v s = s\<lparr>UCSR1C := v, hw_writes := hw_writes s @ [Write_UCSR1C v]\<rparr>"

definition write_UBRR1 :: "uint16_t \<Rightarrow> driver \<Rightarrow> driver" where
  "write_UBRR1 v s = s\<lparr>UBRR1 := v, hw_writes := hw_writes s @ [Write_UBRR1 v]\<rparr>"

definition write_UDR1 :: "uint8_t \<Rightarrow> driver \<Rightarrow> driver" where
  "write_UDR1 v s = s\<lparr>hw_writes := hw_writes s @ [Write_UDR1 v]\<rparr>"

text \<open>The bytes handed to the transmitter, oldest first.\<close>

fun udr_bytes :: "reg_write list \<Rightarrow> uint8_t list" where
  "udr_bytes [] = []"
| "udr_bytes (Write_UDR1 b # ws) = b # udr_bytes ws"
| "udr_bytes (w # ws) = udr_bytes ws"

text \<open>A state to start from: registers cleared, two empty queues of 4 bytes.\<close>

definition empty_fifo :: fifo_t where
  "empty_fifo = \<lparr>content = [], capacity = 4, consumer_evth = No_evth, consumer_evtm = 0\<rparr>"

definition reset :: driver where
  "reset = \<lparr>UCSR1A = 0, UCSR1B = 0, UCSR1C = 0, UBRR1 = 0, UDR1 = 0, hw_writes = [],
            usart_fifo_tx = empty_fifo, usart_fifo_rx = empty_fifo\<rparr>"

subsection \<open>Baud rate selection\<close>

text \<open>
  C leaves two computations of \<open>usart_init\<close> undefined: a division by zero, and the
  negation of the least \<open>int32_t\<close>. The model returns them as values.
\<close>

datatype undefined_behaviour = DivisionByZero | SignedOverflow

definition F_CPU_DIV_8 :: "platform \<Rightarrow> uint32_t" where
  "F_CPU_DIV_8 pf = F_CPU pf div 8"

definition F_CPU_DIV_16 :: "platform \<Rightarrow> uint32_t" where
  "F_CPU_DIV_16 pf = F_CPU pf div 16"

text \<open>\<open>UBRR_VAL(f_cpu, baud)\<close> is \<open>(((f_cpu) + ((baud)/2))/(baud))\<close> on \<open>uint32_t\<close>.\<close>

definition UBRR_VAL :: "uint32_t \<Rightarrow> uint32_t \<Rightarrow> undefined_behaviour + uint32_t" where
  "UBRR_VAL f_cpu baud =
     (if baud = 0 then Inl DivisionByZero else Inr ((f_cpu + baud div 2) div baud))"

text \<open>
  \<open>UBRR_ERR(f_cpu, div, baud)\<close> is \<open>(((f_cpu) * (div)) - (baud))\<close> on \<open>uint32_t\<close>; the
  result initialises an \<open>int32_t\<close>.
\<close>

definition UBRR_ERR :: "uint32_t \<Rightarrow> uint32_t \<Rightarrow> uint32_t \<Rightarrow> int32_t" where
  "UBRR_ERR f_cpu dv baud = f_cpu * dv - baud"

text \<open>\<open>if (err < 0) err = -err;\<close> on an \<open>int32_t\<close>.\<close>

definition negate_if_negative :: "int32_t \<Rightarrow> undefined_behaviour + int32_t" where
  "negate_if_negative err =
     (if sint err < 0
      then (if sint err = - (2 ^ 31) then Inl SignedOverflow else Inr (- err))
      else Inr err)"

text \<open>
  Lines 51 to 62: the value of \<open>ubrr_div16\<close> after the comparison of the two errors.
\<close>

definition pick_closest ::
  "platform \<Rightarrow> uint32_t \<Rightarrow> uint32_t \<Rightarrow> uint32_t \<Rightarrow> undefined_behaviour + uint32_t" where
  "pick_closest pf baud ubrr_div16 ubrr_div8 =
     (if ubrr_div16 \<noteq> 0 \<and> ubrr_div8 \<noteq> 0 then
        (case negate_if_negative (UBRR_ERR (F_CPU_DIV_16 pf) ubrr_div16 baud) of
           Inl u \<Rightarrow> Inl u
         | Inr err_div16 \<Rightarrow>
             (case negate_if_negative (UBRR_ERR (F_CPU_DIV_8 pf) ubrr_div8 baud) of
                Inl u \<Rightarrow> Inl u
              | Inr err_div8 \<Rightarrow>
                  Inr (if sint err_div16 > sint err_div8 then 0 else ubrr_div16)))
      else Inr ubrr_div16)"

text \<open>
  Lines 43 to 62: the values of \<open>ubrr_div16\<close> and \<open>ubrr_div8\<close> with which line 64 is
  reached, or \<open>None\<close> when line 48 returns.
\<close>

definition usart_init_ubrr ::
  "platform \<Rightarrow> uint32_t \<Rightarrow> undefined_behaviour + (uint32_t \<times> uint32_t) option" where
  "usart_init_ubrr pf baud =
     (case UBRR_VAL (F_CPU_DIV_16 pf) baud of
        Inl u \<Rightarrow> Inl u
      | Inr ubrr_div16 \<Rightarrow>
          (case UBRR_VAL (F_CPU_DIV_8 pf) baud of
             Inl u \<Rightarrow> Inl u
           | Inr ubrr_div8 \<Rightarrow>
               if ubrr_div16 = 0 \<and> ubrr_div8 = 0 then Inr None
               else (case pick_closest pf baud ubrr_div16 ubrr_div8 of
                       Inl u \<Rightarrow> Inl u
                     | Inr ubrr_div16' \<Rightarrow> Inr (Some (ubrr_div16', ubrr_div8)))))"

subsection \<open>Register programming\<close>

text \<open>The value assigned to \<open>UCSR1C\<close> on line 67, computed in 16 bits.\<close>

definition ucsr1c_value :: "platform \<Rightarrow> uint16_t \<Rightarrow> uint16_t" where
  "ucsr1c_value pf mode =
     push_bit (UMSEL10 pf) (drop_bit 14 mode AND 3)
     OR push_bit (UPM10 pf) (drop_bit 5 mode AND 3)
     OR push_bit (USBS1 pf) (drop_bit 8 mode AND 1)
     OR push_bit (UCSZ10 pf) (drop_bit 9 mode AND 3)
     OR push_bit (UCPOL1 pf) (drop_bit 7 mode AND 1)"

text \<open>The right-hand side of \<open>UCSR1B |= ...\<close> on line 75, computed in 16 bits.\<close>

definition ucsr1b_value :: "platform \<Rightarrow> uint16_t \<Rightarrow> uint16_t" where
  "ucsr1b_value pf mode =
     (if mode AND USART_MODE_RXEN pf \<noteq> 0
      then push_bit (RXCIE1 pf) 1 OR push_bit (RXEN1 pf) 1 else 0)
     OR (if mode AND USART_MODE_TXEN pf \<noteq> 0
         then push_bit (TXCIE1 pf) 1 OR push_bit (TXEN1 pf) 1 OR push_bit (UDRIE1 pf) 1
         else 0)
     OR push_bit (UCSZ12 pf) (drop_bit 11 mode AND 1)"

text \<open>Lines 64 to 85: the register writes and the registration of the event handler.\<close>

definition usart_init_regs ::
  "platform \<Rightarrow> uint16_t \<Rightarrow> uint32_t \<Rightarrow> uint32_t \<Rightarrow> driver \<Rightarrow> driver" where
  "usart_init_regs pf mode ubrr_div16 ubrr_div8 s =
     (let s1 = write_UCSR1B 0 s;
          s2 = write_UCSR1C (ucast (ucsr1c_value pf mode)) s1;
          s3 = write_UBRR1 (ucast (if ubrr_div16 \<noteq> 0 then ubrr_div16 else ubrr_div8)) s2;
          s4 = write_UCSR1A (if ubrr_div16 \<noteq> 0 then 0 else of_nat (U2X1 pf)) s3;
          s5 = write_UCSR1B (UCSR1B s4 OR ucast (ucsr1b_value pf mode)) s4
      in s5\<lparr>usart_fifo_tx :=
               (usart_fifo_tx s5)\<lparr>consumer_evth := Usart_txfifo_evth,
                                   consumer_evtm := FIFO_EVT_NEW pf\<rparr>\<rparr>)"

text \<open>\<open>usart_init\<close>: the result is the returned \<open>int8_t\<close> and the state left behind.\<close>

definition usart_init ::
  "platform \<Rightarrow> uint32_t \<Rightarrow> uint16_t \<Rightarrow> driver \<Rightarrow> undefined_behaviour + (int8_t \<times> driver)" where
  "usart_init pf baud mode s =
     (case usart_init_ubrr pf baud of
        Inl u \<Rightarrow> Inl u
      | Inr None \<Rightarrow> Inr (- 1, s)
      | Inr (Some (ubrr_div16, ubrr_div8)) \<Rightarrow>
          Inr (0, usart_init_regs pf mode ubrr_div16 ubrr_div8 s))"

subsection \<open>Event handler and interrupt handlers\<close>

text \<open>The handler of the transmit queue's events; it does not use the queue it is given.\<close>

definition usart_txfifo_evth :: "platform \<Rightarrow> fifo_t \<Rightarrow> uint8_t \<Rightarrow> driver \<Rightarrow> driver" where
  "usart_txfifo_evth pf fifo events s =
     (if events AND FIFO_EVT_NEW pf \<noteq> 0
      then write_UCSR1A (UCSR1A s OR ucast (push_bit (TXC1 pf) (1 :: uint16_t))) s
      else s)"

definition usart_send_next :: "platform \<Rightarrow> driver \<Rightarrow> driver" where
  "usart_send_next pf s =
     (let (byte, fifo) = fifo_read_one pf (usart_fifo_tx s);
          s1 = s\<lparr>usart_fifo_tx := fifo\<rparr>
      in if 0 \<le> sint byte then write_UDR1 (ucast byte) s1 else s1)"

definition USART1_RX_vect :: "platform \<Rightarrow> driver \<Rightarrow> driver" where
  "USART1_RX_vect pf s =
     s\<lparr>usart_fifo_rx := snd (fifo_write_one pf (usart_fifo_rx s) (UDR1 s))\<rparr>"

definition USART1_TX_vect :: "platform \<Rightarrow> driver \<Rightarrow> driver" where
  "USART1_TX_vect pf s = usart_send_next pf s"

definition USART1_UDRE_vect :: "platform \<Rightarrow> driver \<Rightarrow> driver" where
  "USART1_UDRE_vect pf s = usart_send_next pf s"

section \<open>Properties\<close>

lemmas run_defs =
  usart_init_def usart_init_ubrr_def usart_init_regs_def pick_closest_def negate_if_negative_def
  UBRR_VAL_def UBRR_ERR_def F_CPU_DIV_16_def F_CPU_DIV_8_def ucsr1c_value_def ucsr1b_value_def
  write_UCSR1A_def write_UCSR1B_def write_UCSR1C_def write_UBRR1_def
  atmega_def reset_def empty_fifo_def Let_def

subsection \<open>The candidate divisors\<close>

lemma unat_UBRR_sum:
  fixes f_cpu baud :: uint32_t
  assumes "unat f_cpu < 2 ^ 31"
  shows "unat ((f_cpu + baud div 2) div baud) = (unat f_cpu + unat baud div 2) div unat baud"
proof -
  have b: "unat (baud div 2) = unat baud div 2"
    by (simp add: unat_div)
  have "unat baud < 2 ^ 32"
    using unsigned_less [of baud] by simp
  then have "unat f_cpu + unat (baud div 2) < 2 ^ 32"
    using assms b by simp
  then have "unat (f_cpu + baud div 2) = unat f_cpu + unat (baud div 2)"
    by (simp add: unat_add_lem [THEN iffD1])
  then show ?thesis
    by (simp add: unat_div b)
qed

lemma unat_F_CPU_DIV_16: "unat (F_CPU_DIV_16 pf) = unat (F_CPU pf) div 16"
  by (simp add: F_CPU_DIV_16_def unat_div)

lemma unat_F_CPU_DIV_8: "unat (F_CPU_DIV_8 pf) = unat (F_CPU pf) div 8"
  by (simp add: F_CPU_DIV_8_def unat_div)

lemma F_CPU_DIV_16_small: "unat (F_CPU_DIV_16 pf) < 2 ^ 31"
proof -
  have "unat (F_CPU pf) < 2 ^ 32"
    using unsigned_less [of "F_CPU pf"] by simp
  then show ?thesis
    by (simp add: unat_F_CPU_DIV_16)
qed

lemma F_CPU_DIV_8_small: "unat (F_CPU_DIV_8 pf) < 2 ^ 31"
proof -
  have "unat (F_CPU pf) < 2 ^ 32"
    using unsigned_less [of "F_CPU pf"] by simp
  then show ?thesis
    by (simp add: unat_F_CPU_DIV_8)
qed

lemma UBRR_VAL_Inr:
  "UBRR_VAL f_cpu baud = Inr d \<Longrightarrow> baud \<noteq> 0 \<and> d = (f_cpu + baud div 2) div baud"
  by (auto simp: UBRR_VAL_def split: if_splits)

text \<open>
  Dividing the clock by the factor first and rounding against the baud rate afterwards
  is rounding against factor times baud rate when the baud rate is even.
\<close>

lemma round_even:
  fixes c b f :: nat
  assumes "even b" "0 < f"
  shows "(c div f + b div 2) div b = (c + f * b div 2) div (f * b)"
proof -
  obtain m where m: "b = 2 * m"
    using assms(1) by (auto elim: evenE)
  have "(c + f * b div 2) div (f * b) = (c + f * m) div f div b"
    by (simp add: m div_mult2_eq)
  also have "(c + f * m) div f = c div f + m"
    using assms(2) by simp
  finally show ?thesis
    by (simp add: m)
qed

text \<open>The candidate for the factor 16 is never larger than the one for the factor 8.\<close>

lemma candidates_le:
  assumes "UBRR_VAL (F_CPU_DIV_16 pf) baud = Inr d16"
    and "UBRR_VAL (F_CPU_DIV_8 pf) baud = Inr d8"
  shows "unat d16 \<le> unat d8"
proof -
  have "unat d16 = (unat (F_CPU pf) div 16 + unat baud div 2) div unat baud"
    using UBRR_VAL_Inr [OF assms(1)] unat_UBRR_sum [OF F_CPU_DIV_16_small, of pf baud]
    by (simp add: unat_F_CPU_DIV_16)
  moreover have "unat d8 = (unat (F_CPU pf) div 8 + unat baud div 2) div unat baud"
    using UBRR_VAL_Inr [OF assms(2)] unat_UBRR_sum [OF F_CPU_DIV_8_small, of pf baud]
    by (simp add: unat_F_CPU_DIV_8)
  moreover have "unat (F_CPU pf) div 16 \<le> unat (F_CPU pf) div 8"
    by (rule div_le_mono2) simp_all
  ultimately show ?thesis
    by (simp add: div_le_mono)
qed

text \<open>
  C2, as the code has it. For every clock and every baud rate other than 0, the
  candidate divisor of \<open>usart_init\<close> for the factor f in {16, 8} is
  \<open>(num + den/2) / den\<close> with \<open>num = clock / f\<close> (truncated) and \<open>den = baud\<close>; no
  addition wraps around. When the baud rate is even this is \<open>(num + den/2) / den\<close> with
  \<open>num = clock\<close> and \<open>den = f * baud\<close>.
\<close>

theorem candidate_divisors:
  assumes "baud \<noteq> 0"
  shows "\<exists>d16 d8.
           UBRR_VAL (F_CPU_DIV_16 pf) baud = Inr d16 \<and>
           UBRR_VAL (F_CPU_DIV_8 pf) baud = Inr d8 \<and>
           unat d16 = (unat (F_CPU pf) div 16 + unat baud div 2) div unat baud \<and>
           unat d8 = (unat (F_CPU pf) div 8 + unat baud div 2) div unat baud \<and>
           (even (unat baud) \<longrightarrow>
              unat d16 = (unat (F_CPU pf) + 16 * unat baud div 2) div (16 * unat baud) \<and>
              unat d8 = (unat (F_CPU pf) + 8 * unat baud div 2) div (8 * unat baud))"
proof -
  let ?d16 = "(F_CPU_DIV_16 pf + baud div 2) div baud"
  let ?d8 = "(F_CPU_DIV_8 pf + baud div 2) div baud"
  have v16: "UBRR_VAL (F_CPU_DIV_16 pf) baud = Inr ?d16"
    and v8: "UBRR_VAL (F_CPU_DIV_8 pf) baud = Inr ?d8"
    using assms by (simp_all add: UBRR_VAL_def)
  have u16: "unat ?d16 = (unat (F_CPU pf) div 16 + unat baud div 2) div unat baud"
    using unat_UBRR_sum [OF F_CPU_DIV_16_small, of pf baud] by (simp add: unat_F_CPU_DIV_16)
  have u8: "unat ?d8 = (unat (F_CPU pf) div 8 + unat baud div 2) div unat baud"
    using unat_UBRR_sum [OF F_CPU_DIV_8_small, of pf baud] by (simp add: unat_F_CPU_DIV_8)
  have e16: "unat ?d16 = (unat (F_CPU pf) + 16 * unat baud div 2) div (16 * unat baud)"
    if "even (unat baud)"
    using round_even [OF that, of 16 "unat (F_CPU pf)"] u16 by simp
  have e8: "unat ?d8 = (unat (F_CPU pf) + 8 * unat baud div 2) div (8 * unat baud)"
    if "even (unat baud)"
    using round_even [OF that, of 8 "unat (F_CPU pf)"] u8 by simp
  show ?thesis
    using v16 v8 u16 u8 e16 e8 by blast
qed

text \<open>At 16 MHz and 9600 baud the candidates are 104 and 208.\<close>

theorem candidate_divisors_witness:
  "(9600 :: uint32_t) \<noteq> 0 \<and> even (unat (9600 :: uint32_t)) \<and>
   UBRR_VAL (F_CPU_DIV_16 (atmega 16000000)) 9600 = Inr 104 \<and>
   UBRR_VAL (F_CPU_DIV_8 (atmega 16000000)) 9600 = Inr 208 \<and>
   (104 :: nat) = (16000000 + 16 * 9600 div 2) div (16 * 9600) \<and>
   (208 :: nat) = (16000000 + 8 * 9600 div 2) div (8 * 9600)"
proof -
  have nz: "(9600 :: uint32_t) \<noteq> 0"
    by simp
  from candidate_divisors [OF nz, of "atmega 16000000"] show ?thesis
    by (simp add: UBRR_VAL_def F_CPU_DIV_16_def F_CPU_DIV_8_def atmega_def)
qed

text \<open>
  C2, as stated, fails for an odd baud rate: at a clock of 125 kHz and 125 baud the
  candidate for the factor 16 is 62, and rounding the clock against 16 * 125 gives 63.
\<close>

theorem candidate_divisor_not_rounded:
  "UBRR_VAL (F_CPU_DIV_16 (atmega 125000)) 125 = Inr 62 \<and>
   (62 :: nat) \<noteq> (125000 + 16 * 125 div 2) div (16 * 125)"
  by (simp add: UBRR_VAL_def F_CPU_DIV_16_def atmega_def)

subsection \<open>The outcome of usart_init\<close>

lemma negate_if_negative_Inl:
  "negate_if_negative err = Inl u \<longleftrightarrow> u = SignedOverflow \<and> sint err = - (2 ^ 31)"
  by (auto simp: negate_if_negative_def)

lemma negate_if_negative_Inr:
  "negate_if_negative err = Inr e \<longleftrightarrow>
     sint err \<noteq> - (2 ^ 31) \<and> e = (if sint err < 0 then - err else err)"
  by (auto simp: negate_if_negative_def)

lemma pick_closest_one_zero:
  "d16 = 0 \<or> d8 = 0 \<Longrightarrow> pick_closest pf baud d16 d8 = Inr d16"
  by (auto simp: pick_closest_def)

lemma pick_closest_Inl:
  "pick_closest pf baud d16 d8 = Inl u \<longleftrightarrow>
     u = SignedOverflow \<and> d16 \<noteq> 0 \<and> d8 \<noteq> 0 \<and>
     (sint (UBRR_ERR (F_CPU_DIV_16 pf) d16 baud) = - (2 ^ 31) \<or>
      sint (UBRR_ERR (F_CPU_DIV_8 pf) d8 baud) = - (2 ^ 31))"
  by (auto simp: pick_closest_def negate_if_negative_Inl negate_if_negative_Inr
      split: sum.splits)

lemma pick_closest_Inr:
  "pick_closest pf baud d16 d8 = Inr d \<Longrightarrow> d = d16 \<or> d = 0 \<and> d8 \<noteq> 0"
  by (auto simp: pick_closest_def split: sum.splits if_splits)

lemma usart_init_ubrr_unfold:
  assumes "UBRR_VAL (F_CPU_DIV_16 pf) baud = Inr d16"
    and "UBRR_VAL (F_CPU_DIV_8 pf) baud = Inr d8"
  shows "usart_init_ubrr pf baud =
           (if d16 = 0 \<and> d8 = 0 then Inr None
            else (case pick_closest pf baud d16 d8 of
                    Inl u \<Rightarrow> Inl u
                  | Inr d \<Rightarrow> Inr (Some (d, d8))))"
  using assms by (simp add: usart_init_ubrr_def)

lemma usart_init_ubrr_DivisionByZero:
  "usart_init_ubrr pf baud = Inl DivisionByZero \<longleftrightarrow> baud = 0"
  by (auto simp: usart_init_ubrr_def UBRR_VAL_def pick_closest_Inl split: sum.splits)

lemma UBRR1_usart_init_regs:
  "UBRR1 (usart_init_regs pf mode d16 d8 s) = ucast (if d16 \<noteq> 0 then d16 else d8)"
  by (simp add: usart_init_regs_def Let_def write_UCSR1A_def write_UCSR1B_def
      write_UCSR1C_def write_UBRR1_def)

lemma UCSR1A_usart_init_regs:
  "UCSR1A (usart_init_regs pf mode d16 d8 s) = (if d16 \<noteq> 0 then 0 else of_nat (U2X1 pf))"
  by (simp add: usart_init_regs_def Let_def write_UCSR1A_def write_UCSR1B_def
      write_UCSR1C_def write_UBRR1_def)

lemma usart_init_Inr_0:
  "usart_init pf baud mode s = Inr (0, s') \<longleftrightarrow>
     (\<exists>d16 d8. usart_init_ubrr pf baud = Inr (Some (d16, d8)) \<and>
        s' = usart_init_regs pf mode d16 d8 s)"
  by (auto simp: usart_init_def split: sum.splits option.splits)

lemma usart_init_Inr_fail:
  "usart_init pf baud mode s = Inr (r, s') \<Longrightarrow> r \<noteq> 0 \<Longrightarrow>
     r = - 1 \<and> s' = s \<and> usart_init_ubrr pf baud = Inr None"
  by (auto simp: usart_init_def split: sum.splits option.splits)

lemma usart_init_Inl:
  "usart_init pf baud mode s = Inl u \<longleftrightarrow> usart_init_ubrr pf baud = Inl u"
  by (auto simp: usart_init_def split: sum.splits option.splits)

lemma usart_init_both_zero:
  assumes "UBRR_VAL (F_CPU_DIV_16 pf) baud = Inr d16"
    and "UBRR_VAL (F_CPU_DIV_8 pf) baud = Inr d8"
  shows "(\<exists>s'. usart_init pf baud mode s = Inr (- 1, s')) \<longleftrightarrow> d16 = 0 \<and> d8 = 0"
  using assms
  by (auto simp: usart_init_def usart_init_ubrr_unfold split: sum.splits option.splits)

lemma usart_init_SignedOverflow:
  assumes "UBRR_VAL (F_CPU_DIV_16 pf) baud = Inr d16"
    and "UBRR_VAL (F_CPU_DIV_8 pf) baud = Inr d8"
  shows "usart_init pf baud mode s = Inl SignedOverflow \<longleftrightarrow>
           d16 \<noteq> 0 \<and> d8 \<noteq> 0 \<and>
           (sint (UBRR_ERR (F_CPU_DIV_16 pf) d16 baud) = - (2 ^ 31) \<or>
            sint (UBRR_ERR (F_CPU_DIV_8 pf) d8 baud) = - (2 ^ 31))"
proof -
  have "usart_init_ubrr pf baud = Inl SignedOverflow \<longleftrightarrow>
          \<not> (d16 = 0 \<and> d8 = 0) \<and> pick_closest pf baud d16 d8 = Inl SignedOverflow"
    by (auto simp: usart_init_ubrr_unfold [OF assms] split: sum.splits)
  then show ?thesis
    by (auto simp: usart_init_Inl pick_closest_Inl)
qed

lemma usart_init_success:
  assumes "UBRR_VAL (F_CPU_DIV_16 pf) baud = Inr d16"
    and "UBRR_VAL (F_CPU_DIV_8 pf) baud = Inr d8"
    and "\<not> (d16 = 0 \<and> d8 = 0)" and "usart_init pf baud mode s \<noteq> Inl SignedOverflow"
  shows "\<exists>s' d. usart_init pf baud mode s = Inr (0, s') \<and> (d = d16 \<or> d = d8) \<and>
           1 \<le> unat d \<and> UBRR1 s' = ucast d \<and> unat (UBRR1 s') = unat d mod 65536"
proof -
  have "pick_closest pf baud d16 d8 \<noteq> Inl u" for u
    using assms(4) pick_closest_Inl [of pf baud d16 d8 u]
      usart_init_SignedOverflow [OF assms(1,2), of mode s] by auto
  then obtain d' where d': "pick_closest pf baud d16 d8 = Inr d'"
    by (cases "pick_closest pf baud d16 d8") auto
  let ?d = "if d' \<noteq> 0 then d' else d8"
  let ?s = "usart_init_regs pf mode d' d8 s"
  have "usart_init_ubrr pf baud = Inr (Some (d', d8))"
    using assms(3) d' by (simp add: usart_init_ubrr_unfold [OF assms(1,2)])
  then have run: "usart_init pf baud mode s = Inr (0, ?s)"
    by (simp add: usart_init_Inr_0)
  have sel: "?d = d16 \<or> ?d = d8"
    using pick_closest_Inr [OF d'] by auto
  have nz: "?d \<noteq> 0"
    using pick_closest_Inr [OF d'] assms(3) by auto
  then have "unat ?d \<noteq> 0"
    using unat_eq_0 [of ?d] by blast
  then have one: "1 \<le> unat ?d"
    by linarith
  have reg: "UBRR1 ?s = ucast ?d"
    by (simp add: UBRR1_usart_init_regs)
  have "unat (UBRR1 ?s) = unat ?d mod 65536"
    by (simp add: reg unsigned_ucast_eq take_bit_eq_mod)
  with run sel one reg show ?thesis
    by blast
qed

text \<open>
  C4, as the code has it. For every clock and every baud rate other than 0 (the two
  candidate divisors d16 and d8 exist): \<open>usart_init\<close> returns the failure result -1
  exactly when both candidates are zero; it runs into the negation of the least
  \<open>int32_t\<close>, which C leaves undefined, exactly when both candidates are non-zero and one
  of the two error values is that number; in every other case it returns success, the
  selected divisor is one of the candidates and at least 1, and the 16-bit baud-rate
  register receives the selected divisor modulo 65536.
\<close>

theorem usart_init_outcome:
  assumes "UBRR_VAL (F_CPU_DIV_16 pf) baud = Inr d16"
    and "UBRR_VAL (F_CPU_DIV_8 pf) baud = Inr d8"
  shows "((\<exists>s'. usart_init pf baud mode s = Inr (- 1, s')) \<longleftrightarrow> d16 = 0 \<and> d8 = 0) \<and>
         (usart_init pf baud mode s = Inl SignedOverflow \<longleftrightarrow>
            d16 \<noteq> 0 \<and> d8 \<noteq> 0 \<and>
            (sint (UBRR_ERR (F_CPU_DIV_16 pf) d16 baud) = - (2 ^ 31) \<or>
             sint (UBRR_ERR (F_CPU_DIV_8 pf) d8 baud) = - (2 ^ 31))) \<and>
         (\<not> (d16 = 0 \<and> d8 = 0) \<and> usart_init pf baud mode s \<noteq> Inl SignedOverflow \<longrightarrow>
            (\<exists>s' d. usart_init pf baud mode s = Inr (0, s') \<and> (d = d16 \<or> d = d8) \<and>
               1 \<le> unat d \<and> UBRR1 s' = ucast d \<and> unat (UBRR1 s') = unat d mod 65536))"
  using usart_init_both_zero [OF assms] usart_init_SignedOverflow [OF assms]
    usart_init_success [OF assms] by blast

text \<open>At 16 MHz and 9600 baud \<open>usart_init\<close> succeeds and programs the divisor 104.\<close>

theorem usart_init_outcome_witness:
  "UBRR_VAL (F_CPU_DIV_16 (atmega 16000000)) 9600 = Inr 104 \<and>
   UBRR_VAL (F_CPU_DIV_8 (atmega 16000000)) 9600 = Inr 208 \<and>
   usart_init (atmega 16000000) 9600 0 reset \<noteq> Inl SignedOverflow \<and>
   usart_init (atmega 16000000) 9600 0 reset =
     Inr (0, \<lparr>UCSR1A = 0, UCSR1B = 0, UCSR1C = 0, UBRR1 = 104, UDR1 = 0,
              hw_writes = [Write_UCSR1B 0, Write_UCSR1C 0, Write_UBRR1 104,
                           Write_UCSR1A 0, Write_UCSR1B 0],
              usart_fifo_tx = \<lparr>content = [], capacity = 4,
                                consumer_evth = Usart_txfifo_evth, consumer_evtm = 1\<rparr>,
              usart_fifo_rx = empty_fifo\<rparr>)"
proof -
  have c16: "UBRR_VAL (F_CPU_DIV_16 (atmega 16000000)) 9600 = Inr 104"
    and c8: "UBRR_VAL (F_CPU_DIV_8 (atmega 16000000)) 9600 = Inr 208"
    by (simp_all add: UBRR_VAL_def F_CPU_DIV_16_def F_CPU_DIV_8_def atmega_def)
  from usart_init_outcome [OF c16 c8, of 0 reset] c16 c8 show ?thesis
    by (simp add: run_defs)
qed

text \<open>
  C4, as stated, fails twice. At a clock of 1048576 Hz and 1 baud the candidates are
  65536 and 131072, \<open>usart_init\<close> returns success, and the baud-rate register receives
  0. At a clock of 134184952 Hz and 64 baud the candidates are 131040 and 262080, the
  error value of the factor 8 is the least \<open>int32_t\<close>, and its negation is undefined.
\<close>

theorem usart_init_register_zero:
  "UBRR_VAL (F_CPU_DIV_16 (atmega 1048576)) 1 = Inr 65536 \<and>
   UBRR_VAL (F_CPU_DIV_8 (atmega 1048576)) 1 = Inr 131072 \<and>
   usart_init (atmega 1048576) 1 0 reset =
     Inr (0, \<lparr>UCSR1A = 0, UCSR1B = 0, UCSR1C = 0, UBRR1 = 0, UDR1 = 0,
              hw_writes = [Write_UCSR1B 0, Write_UCSR1C 0, Write_UBRR1 0,
                           Write_UCSR1A 0, Write_UCSR1B 0],
              usart_fifo_tx = \<lparr>content = [], capacity = 4,
                                consumer_evth = Usart_txfifo_evth, consumer_evtm = 1\<rparr>,
              usart_fifo_rx = empty_fifo\<rparr>) \<and>
   UBRR_VAL (F_CPU_DIV_16 (atmega 134184952)) 64 = Inr 131040 \<and>
   UBRR_VAL (F_CPU_DIV_8 (atmega 134184952)) 64 = Inr 262080 \<and>
   UBRR_ERR (F_CPU_DIV_8 (atmega 134184952)) 262080 64 = 0x80000000 \<and>
   usart_init (atmega 134184952) 64 0 reset = Inl SignedOverflow"
  by (simp add: run_defs)

text \<open>
  C10. When \<open>usart_init\<close> returns anything but 0, it returns -1 and the state it leaves
  is the state it was given: no register was written (the list of writes is the same)
  and the event handler and event mask of the transmit queue are the same. This happens
  with both candidate divisors zero.
\<close>

theorem failed_init_no_effect:
  assumes "usart_init pf baud mode s = Inr (r, s')" and "r \<noteq> 0"
  shows "r = - 1 \<and> s' = s \<and> hw_writes s' = hw_writes s \<and>
         consumer_evth (usart_fifo_tx s') = consumer_evth (usart_fifo_tx s) \<and>
         consumer_evtm (usart_fifo_tx s') = consumer_evtm (usart_fifo_tx s) \<and>
         UBRR_VAL (F_CPU_DIV_16 pf) baud = Inr 0 \<and> UBRR_VAL (F_CPU_DIV_8 pf) baud = Inr 0"
proof -
  have f: "r = - 1 \<and> s' = s \<and> usart_init_ubrr pf baud = Inr None"
    using assms by (rule usart_init_Inr_fail)
  then have "UBRR_VAL (F_CPU_DIV_16 pf) baud = Inr 0 \<and> UBRR_VAL (F_CPU_DIV_8 pf) baud = Inr 0"
    by (auto simp: usart_init_ubrr_def split: sum.splits if_splits)
  with f show ?thesis
    by simp
qed

text \<open>At 16 MHz, 5000000 baud cannot be reached: both candidates are 0.\<close>

theorem failed_init_no_effect_witness:
  "usart_init (atmega 16000000) 5000000 3 reset = Inr (- 1, reset) \<and>
   (- 1 :: int8_t) \<noteq> 0 \<and>
   UBRR_VAL (F_CPU_DIV_16 (atmega 16000000)) 5000000 = Inr 0 \<and>
   UBRR_VAL (F_CPU_DIV_8 (atmega 16000000)) 5000000 = Inr 0"
proof -
  have run: "usart_init (atmega 16000000) 5000000 3 reset = Inr (- 1, reset)"
    by (simp add: usart_init_def usart_init_ubrr_def UBRR_VAL_def F_CPU_DIV_16_def
        F_CPU_DIV_8_def atmega_def)
  have nz: "(- 1 :: int8_t) \<noteq> 0"
    by simp
  from failed_init_no_effect [OF run nz] run nz show ?thesis
    by simp
qed

subsection \<open>The selection of the prescaler factor\<close>

lemma sint_neg:
  fixes e :: int32_t
  assumes "sint e \<noteq> - (2 ^ 31)"
  shows "sint (- e) = - sint e"
proof -
  have lo: "- (2 ^ 31) \<le> sint e" and hi: "sint e < 2 ^ 31"
    using sint_ge [of e] sint_lt [of e] by simp_all
  have "sint (- e) = signed_take_bit 31 (- sint e)"
    by (simp add: sint_word_ariths)
  also have "\<dots> = - sint e"
    using lo hi assms by (intro signed_take_bit_int_eq_self) simp_all
  finally show ?thesis .
qed

lemma negate_if_negative_abs:
  assumes "sint err \<noteq> - (2 ^ 31)"
  shows "\<exists>e. negate_if_negative err = Inr e \<and> sint e = \<bar>sint err\<bar>"
  using assms sint_neg [OF assms] by (auto simp: negate_if_negative_def)

text \<open>
  What lines 51 to 62 compare when both candidates are non-zero and no negation
  overflows: the absolute values of the two 32-bit results of \<open>UBRR_ERR\<close>, read as
  signed. The factor 16 is given up only when its value is strictly the larger one.
\<close>

lemma pick_closest_compares:
  assumes "d16 \<noteq> 0" and "d8 \<noteq> 0"
    and "sint (UBRR_ERR (F_CPU_DIV_16 pf) d16 baud) \<noteq> - (2 ^ 31)"
    and "sint (UBRR_ERR (F_CPU_DIV_8 pf) d8 baud) \<noteq> - (2 ^ 31)"
  shows "pick_closest pf baud d16 d8 =
           Inr (if \<bar>sint (UBRR_ERR (F_CPU_DIV_16 pf) d16 baud)\<bar>
                    > \<bar>sint (UBRR_ERR (F_CPU_DIV_8 pf) d8 baud)\<bar>
                then 0 else d16)"
proof -
  obtain e16 where e16: "negate_if_negative (UBRR_ERR (F_CPU_DIV_16 pf) d16 baud) = Inr e16"
    "sint e16 = \<bar>sint (UBRR_ERR (F_CPU_DIV_16 pf) d16 baud)\<bar>"
    using negate_if_negative_abs [OF assms(3)] by blast
  obtain e8 where e8: "negate_if_negative (UBRR_ERR (F_CPU_DIV_8 pf) d8 baud) = Inr e8"
    "sint e8 = \<bar>sint (UBRR_ERR (F_CPU_DIV_8 pf) d8 baud)\<bar>"
    using negate_if_negative_abs [OF assms(4)] by blast
  show ?thesis
    using assms(1,2) by (simp add: pick_closest_def e16 e8)
qed

text \<open>
  C1, at a clock of 16 MHz and 115200 baud. The candidates are 9 for the factor 16 and
  17 for the factor 8, and \<open>usart_init\<close> keeps the factor 16: it programs the divisor 9
  and writes 0 to \<open>UCSR1A\<close>. The rate at the factor 8 and the divisor 17 is closer to
  115200 than the rate at the factor 16 and the divisor 9. The two values that
  \<open>usart_init\<close> compares are 1000000 * 9 - 115200 and 2000000 * 17 - 115200.
\<close>

theorem usart_init_16MHz_115200:
  "usart_init_ubrr (atmega 16000000) 115200 = Inr (Some (9, 17)) \<and>
   usart_init (atmega 16000000) 115200 0 reset =
     Inr (0, \<lparr>UCSR1A = 0, UCSR1B = 0, UCSR1C = 0, UBRR1 = 9, UDR1 = 0,
              hw_writes = [Write_UCSR1B 0, Write_UCSR1C 0, Write_UBRR1 9,
                           Write_UCSR1A 0, Write_UCSR1B 0],
              usart_fifo_tx = \<lparr>content = [], capacity = 4,
                                consumer_evth = Usart_txfifo_evth, consumer_evtm = 1\<rparr>,
              usart_fifo_rx = empty_fifo\<rparr>) \<and>
   UBRR_ERR (F_CPU_DIV_16 (atmega 16000000)) 9 115200 = 8884800 \<and>
   UBRR_ERR (F_CPU_DIV_8 (atmega 16000000)) 17 115200 = 33884800 \<and>
   \<bar>16000000 / (8 * 17) - 115200 :: real\<bar> < \<bar>16000000 / (16 * 9) - 115200\<bar>"
  by (simp add: run_defs)

subsection \<open>The double-speed bit\<close>

lemma bit_of_nat_self: "\<not> bit (of_nat n :: uint8_t) n"
proof -
  have "n < 2 ^ n"
    by (rule less_exp)
  then have "\<not> bit n n"
    by (simp add: bit_iff_odd)
  then show ?thesis
    by (simp add: bit_of_nat_iff)
qed

text \<open>
  \<open>UCSR1A\<close> is assigned the bit number \<open>U2X1\<close>, not the mask \<open>1 << U2X1\<close>: whatever the
  bit number is, a successful \<open>usart_init\<close> leaves the bit \<open>U2X1\<close> of \<open>UCSR1A\<close> clear.
\<close>

lemma double_speed_bit_never_set:
  assumes "usart_init pf baud mode s = Inr (0, s')"
  shows "\<not> bit (UCSR1A s') (U2X1 pf)"
  using assms bit_of_nat_self [of "U2X1 pf"]
  by (auto simp: usart_init_Inr_0 UCSR1A_usart_init_regs split: if_splits)

text \<open>
  When exactly one of the two candidate divisors is non-zero, it is the one for the
  factor 8. \<open>usart_init\<close> then skips the comparison (no negation is evaluated, so none
  can overflow), returns success and hands the divisor of the factor 8 to \<open>UBRR1\<close>. It
  assigns the bit number \<open>U2X1\<close> to \<open>UCSR1A\<close>, so the double-speed bit stays clear.
\<close>

lemma single_feasible_candidate:
  assumes "UBRR_VAL (F_CPU_DIV_16 pf) baud = Inr d16"
    and "UBRR_VAL (F_CPU_DIV_8 pf) baud = Inr d8"
    and "(d16 = 0) \<noteq> (d8 = 0)"
  shows "d16 = 0 \<and> d8 \<noteq> 0 \<and>
         usart_init_ubrr pf baud = Inr (Some (d16, d8)) \<and>
         usart_init pf baud mode s = Inr (0, usart_init_regs pf mode d16 d8 s) \<and>
         UBRR1 (usart_init_regs pf mode d16 d8 s) = ucast d8 \<and>
         \<not> bit (UCSR1A (usart_init_regs pf mode d16 d8 s)) (U2X1 pf)"
proof -
  have "pick_closest pf baud d16 d8 = Inr d16"
    using assms(3) by (intro pick_closest_one_zero) auto
  then have sel: "usart_init_ubrr pf baud = Inr (Some (d16, d8))"
    using assms(3) by (auto simp: usart_init_ubrr_unfold [OF assms(1,2)])
  then have run: "usart_init pf baud mode s = Inr (0, usart_init_regs pf mode d16 d8 s)"
    by (simp add: usart_init_Inr_0)
  have "unat d16 \<le> unat d8"
    using assms(1,2) by (rule candidates_le)
  then have z: "d16 = 0 \<and> d8 \<noteq> 0"
    using assms(3) unat_eq_0 [of d16] unat_eq_0 [of d8] by auto
  have "\<not> bit (UCSR1A (usart_init_regs pf mode d16 d8 s)) (U2X1 pf)"
    using run by (rule double_speed_bit_never_set)
  with sel run z show ?thesis
    by (simp add: UBRR1_usart_init_regs)
qed

text \<open>
  C7, at a clock of 16 MHz and 3000000 baud. The candidate for the factor 16 is 0 and
  the candidate for the factor 8 is 1, so the factor 8 is the only feasible one.
  \<open>usart_init\<close> skips the comparison, returns success and writes the divisor 1 to
  \<open>UBRR1\<close>, but the value it writes to \<open>UCSR1A\<close> is the bit number \<open>U2X1\<close>, which is 1:
  bit 0 is set and the double-speed bit (bit 1) is clear. With the double-speed bit
  clear the peripheral divides by 16, so the factor 8 is not put in force. The mask
  \<open>1 << U2X1\<close> would be 2.
\<close>

theorem single_feasible_factor_not_in_force:
  "UBRR_VAL (F_CPU_DIV_16 (atmega 16000000)) 3000000 = Inr 0 \<and>
   UBRR_VAL (F_CPU_DIV_8 (atmega 16000000)) 3000000 = Inr 1 \<and>
   usart_init_ubrr (atmega 16000000) 3000000 = Inr (Some (0, 1)) \<and>
   usart_init (atmega 16000000) 3000000 0 reset =
     Inr (0, \<lparr>UCSR1A = 1, UCSR1B = 0, UCSR1C = 0, UBRR1 = 1, UDR1 = 0,
              hw_writes = [Write_UCSR1B 0, Write_UCSR1C 0, Write_UBRR1 1,
                           Write_UCSR1A 1, Write_UCSR1B 0],
              usart_fifo_tx = \<lparr>content = [], capacity = 4,
                                consumer_evth = Usart_txfifo_evth, consumer_evtm = 1\<rparr>,
              usart_fifo_rx = empty_fifo\<rparr>) \<and>
   U2X1 (atmega 16000000) = 1 \<and>
   \<not> bit (1 :: uint8_t) (U2X1 (atmega 16000000)) \<and> bit (1 :: uint8_t) 0 \<and>
   push_bit (U2X1 (atmega 16000000)) (1 :: uint8_t) = 2"
  by (simp add: run_defs)

text \<open>
  C3, as the code has it. When \<open>usart_init\<close> succeeds and the factor 16 won the selection
  (\<open>ubrr_div16\<close> is non-zero when the registers are written), it writes 0 to \<open>UCSR1A\<close>:
  the double-speed bit \<open>U2X1\<close> is clear, and the baud-rate register receives the divisor
  of the factor 16.
\<close>

theorem double_speed_clear_on_div16:
  assumes "usart_init pf baud mode s = Inr (0, s')"
    and "usart_init_ubrr pf baud = Inr (Some (d16, d8))" and "d16 \<noteq> 0"
  shows "UCSR1A s' = 0 \<and> \<not> bit (UCSR1A s') (U2X1 pf) \<and>
         UBRR1 s' = ucast d16 \<and> Write_UCSR1A 0 \<in> set (hw_writes s')"
proof -
  have s': "s' = usart_init_regs pf mode d16 d8 s"
    using assms(1,2) by (simp add: usart_init_Inr_0)
  have "Write_UCSR1A 0 \<in> set (hw_writes (usart_init_regs pf mode d16 d8 s))"
    using assms(3)
    by (simp add: usart_init_regs_def Let_def write_UCSR1A_def write_UCSR1B_def
        write_UCSR1C_def write_UBRR1_def)
  then show ?thesis
    using assms(3) by (simp add: s' UCSR1A_usart_init_regs UBRR1_usart_init_regs)
qed

text \<open>At 16 MHz and 9600 baud, with receiver and transmitter enabled, the factor 16 wins.\<close>

theorem double_speed_clear_on_div16_witness:
  "usart_init (atmega 16000000) 9600 3 reset =
     Inr (0, \<lparr>UCSR1A = 0, UCSR1B = 248, UCSR1C = 0, UBRR1 = 104, UDR1 = 0,
              hw_writes = [Write_UCSR1B 0, Write_UCSR1C 0, Write_UBRR1 104,
                           Write_UCSR1A 0, Write_UCSR1B 248],
              usart_fifo_tx = \<lparr>content = [], capacity = 4,
                                consumer_evth = Usart_txfifo_evth, consumer_evtm = 1\<rparr>,
              usart_fifo_rx = empty_fifo\<rparr>) \<and>
   usart_init_ubrr (atmega 16000000) 9600 = Inr (Some (104, 208)) \<and>
   (104 :: uint32_t) \<noteq> 0 \<and> \<not> bit (0 :: uint8_t) (U2X1 (atmega 16000000))"
proof -
  have run: "usart_init (atmega 16000000) 9600 3 reset =
     Inr (0, \<lparr>UCSR1A = 0, UCSR1B = 248, UCSR1C = 0, UBRR1 = 104, UDR1 = 0,
              hw_writes = [Write_UCSR1B 0, Write_UCSR1C 0, Write_UBRR1 104,
                           Write_UCSR1A 0, Write_UCSR1B 248],
              usart_fifo_tx = \<lparr>content = [], capacity = 4,
                                consumer_evth = Usart_txfifo_evth, consumer_evtm = 1\<rparr>,
              usart_fifo_rx = empty_fifo\<rparr>)"
    by (simp add: run_defs)
  have sel: "usart_init_ubrr (atmega 16000000) 9600 = Inr (Some (104, 208))"
    by (simp add: run_defs)
  have nz: "(104 :: uint32_t) \<noteq> 0"
    by simp
  from double_speed_clear_on_div16 [OF run sel nz] run sel show ?thesis
    by simp
qed

text \<open>
  C3, as stated, fails: at 16 MHz and 9600 baud the factor 16 wins (\<open>ubrr_div16\<close> is 104
  when the registers are written), and the value written to \<open>UCSR1A\<close> is 0, in which the
  bit \<open>U2X1\<close> (bit 1) is clear.
\<close>

theorem double_speed_not_set_when_div16_wins:
  "usart_init_ubrr (atmega 16000000) 9600 = Inr (Some (104, 208)) \<and>
   usart_init (atmega 16000000) 9600 0 reset =
     Inr (0, \<lparr>UCSR1A = 0, UCSR1B = 0, UCSR1C = 0, UBRR1 = 104, UDR1 = 0,
              hw_writes = [Write_UCSR1B 0, Write_UCSR1C 0, Write_UBRR1 104,
                           Write_UCSR1A 0, Write_UCSR1B 0],
              usart_fifo_tx = \<lparr>content = [], capacity = 4,
                                consumer_evth = Usart_txfifo_evth, consumer_evtm = 1\<rparr>,
              usart_fifo_rx = empty_fifo\<rparr>) \<and>
   U2X1 (atmega 16000000) = 1 \<and> \<not> bit (0 :: uint8_t) 1"
  by (simp add: run_defs)

subsection \<open>A baud rate of zero\<close>

text \<open>
  C5, as the code has it. \<open>usart_init\<close> divides by the requested baud rate without a
  guard: it divides by zero, which C leaves undefined, exactly when the requested baud
  rate is 0, for every clock, mode word and state. For a baud rate of 0 it therefore
  returns no failure result.
\<close>

theorem division_by_zero_iff:
  "usart_init pf baud mode s = Inl DivisionByZero \<longleftrightarrow> baud = 0"
  by (simp add: usart_init_Inl usart_init_ubrr_DivisionByZero)

text \<open>At 9600 baud no division by zero happens.\<close>

theorem division_by_zero_iff_witness:
  "usart_init (atmega 16000000) 9600 0 reset \<noteq> Inl DivisionByZero \<and> (9600 :: uint32_t) \<noteq> 0"
  using division_by_zero_iff [of "atmega 16000000" 9600 0 reset]
  by simp

text \<open>
  C5, as stated, fails: at a baud rate of 0 \<open>usart_init\<close> divides by zero and does not
  return the failure result.
\<close>

theorem zero_baud_divides_by_zero:
  "usart_init (atmega 16000000) 0 0 reset = Inl DivisionByZero \<and>
   usart_init (atmega 16000000) 0 0 reset \<noteq> Inr (- 1, reset)"
  by (simp add: run_defs)

subsection \<open>The control registers\<close>

lemma bit_3_iff: "bit (3 :: uint16_t) m \<longleftrightarrow> m < 2"
proof -
  have "bit (mask 2 :: uint16_t) m \<longleftrightarrow> m < 2"
    by (auto simp: bit_mask_iff)
  moreover have "(mask 2 :: uint16_t) = 3"
    by (simp add: mask_eq_exp_minus_1)
  ultimately show ?thesis
    by simp
qed

lemma bit_flag:
  "bit (push_bit k (1 :: uint16_t)) n \<longleftrightarrow> n < 16 \<and> n = k"
  by (auto simp: bit_exp_iff)

lemma bit_and_1_iff: "bit (w AND 1 :: uint16_t) m \<longleftrightarrow> m = 0 \<and> bit w 0"
  by (auto simp: bit_and_iff bit_1_iff)

text \<open>A one-bit field: bit j of the mode word, moved to bit k.\<close>

lemma bit_field1:
  "bit (push_bit k (drop_bit j (mode :: uint16_t) AND 1)) n \<longleftrightarrow> n < 16 \<and> n = k \<and> bit mode j"
proof -
  have "bit (push_bit k (drop_bit j mode AND 1)) n \<longleftrightarrow>
          k \<le> n \<and> n < 16 \<and> bit (drop_bit j mode AND 1) (n - k)"
    by (simp only: bit_push_bit_iff possible_bit_word) simp
  also have "bit (drop_bit j mode AND 1) (n - k) \<longleftrightarrow> n - k = 0 \<and> bit mode j"
    by (simp only: bit_and_1_iff bit_drop_bit_eq) simp
  finally show ?thesis
    by auto
qed

text \<open>A two-bit field: bits j and j + 1 of the mode word, moved to bits k and k + 1.\<close>

lemma bit_field2:
  "bit (push_bit k (drop_bit j (mode :: uint16_t) AND 3)) n \<longleftrightarrow>
     n < 16 \<and> (n = k \<and> bit mode j \<or> n = k + 1 \<and> bit mode (j + 1))"
proof -
  have "bit (push_bit k (drop_bit j mode AND 3)) n \<longleftrightarrow>
          k \<le> n \<and> n < 16 \<and> bit (drop_bit j mode AND 3) (n - k)"
    by (simp only: bit_push_bit_iff possible_bit_word) simp
  also have "bit (drop_bit j mode AND 3) (n - k) \<longleftrightarrow> n - k < 2 \<and> bit mode (j + (n - k))"
    by (simp only: bit_and_iff bit_3_iff bit_drop_bit_eq) (auto simp: add.commute)
  also have "k \<le> n \<and> n < 16 \<and> n - k < 2 \<and> bit mode (j + (n - k)) \<longleftrightarrow>
          n < 16 \<and> (n = k \<and> bit mode j \<or> n = k + 1 \<and> bit mode (j + 1))"
  proof (cases "k \<le> n")
    case True
    then obtain m where m: "n = k + m"
      by (auto simp: le_iff_add)
    have "m < 2 \<longleftrightarrow> m = 0 \<or> m = 1"
      by auto
    then show ?thesis
      by (auto simp: m)
  next
    case False
    then show ?thesis
      by auto
  qed
  finally show ?thesis .
qed

lemma bit_ucsr1c_value:
  "bit (ucast (ucsr1c_value pf mode) :: uint8_t) n \<longleftrightarrow>
     n < 8 \<and>
     (n = UMSEL10 pf \<and> bit mode 14 \<or> n = UMSEL10 pf + 1 \<and> bit mode 15 \<or>
      n = UPM10 pf \<and> bit mode 5 \<or> n = UPM10 pf + 1 \<and> bit mode 6 \<or>
      n = USBS1 pf \<and> bit mode 8 \<or>
      n = UCSZ10 pf \<and> bit mode 9 \<or> n = UCSZ10 pf + 1 \<and> bit mode 10 \<or>
      n = UCPOL1 pf \<and> bit mode 7)"
proof (cases "n < 8")
  case True
  then have n: "n < 16" "n < LENGTH(8)"
    by simp_all
  show ?thesis
    unfolding ucsr1c_value_def
    by (simp only: bit_ucast_iff bit_or_iff bit_field1 bit_field2 n True simp_thms) simp
next
  case False
  then show ?thesis
    by (simp add: bit_ucast_iff)
qed

lemma bit_ucsr1b_value:
  "bit (ucast (ucsr1b_value pf mode) :: uint8_t) n \<longleftrightarrow>
     n < 8 \<and>
     (mode AND USART_MODE_RXEN pf \<noteq> 0 \<and> (n = RXCIE1 pf \<or> n = RXEN1 pf) \<or>
      mode AND USART_MODE_TXEN pf \<noteq> 0 \<and> (n = TXCIE1 pf \<or> n = TXEN1 pf \<or> n = UDRIE1 pf) \<or>
      n = UCSZ12 pf \<and> bit mode 11)"
proof (cases "n < 8")
  case True
  then have n: "n < 16" "n < LENGTH(8)"
    by simp_all
  have z: "\<not> bit (0 :: uint16_t) n"
    by simp
  show ?thesis
    unfolding ucsr1b_value_def
    by (cases "mode AND USART_MODE_RXEN pf = 0"; cases "mode AND USART_MODE_TXEN pf = 0";
        simp only: bit_ucast_iff bit_or_iff bit_field1 bit_flag z if_True if_False
          n True simp_thms; blast)
next
  case False
  then show ?thesis
    by (simp add: bit_ucast_iff)
qed

text \<open>
  C6. After a successful \<open>usart_init\<close>, on a platform whose bit numbers are bits of 8-bit
  registers, bit n of \<open>UCSR1C\<close> is set exactly when n is: the USART-mode field's low or
  high bit and mode bit 14 or 15 is set; the parity field's low or high bit and mode bit
  5 or 6 is set; the stop bit and mode bit 8 is set; the frame-size field's low or high
  bit and mode bit 9 or 10 is set; the clock-polarity bit and mode bit 7 is set. Bit n of
  \<open>UCSR1B\<close> is set exactly when n is: the receive-interrupt-enable or receive-enable
  bit and the RXEN flag is in the mode word; the transmit-complete-interrupt-enable,
  transmit-enable or data-register-empty-interrupt-enable bit and the TXEN flag is in
  the mode word; the high frame-size bit and mode bit 11 is set.
\<close>

theorem usart_init_control_bits:
  assumes "usart_init pf baud mode s = Inr (0, s')" and "bit_numbers_ok pf"
  shows "(bit (UCSR1C s') n \<longleftrightarrow>
            n < 8 \<and>
            (n = UMSEL10 pf \<and> bit mode 14 \<or> n = UMSEL10 pf + 1 \<and> bit mode 15 \<or>
             n = UPM10 pf \<and> bit mode 5 \<or> n = UPM10 pf + 1 \<and> bit mode 6 \<or>
             n = USBS1 pf \<and> bit mode 8 \<or>
             n = UCSZ10 pf \<and> bit mode 9 \<or> n = UCSZ10 pf + 1 \<and> bit mode 10 \<or>
             n = UCPOL1 pf \<and> bit mode 7)) \<and>
         (bit (UCSR1B s') n \<longleftrightarrow>
            n < 8 \<and>
            (mode AND USART_MODE_RXEN pf \<noteq> 0 \<and> (n = RXCIE1 pf \<or> n = RXEN1 pf) \<or>
             mode AND USART_MODE_TXEN pf \<noteq> 0 \<and>
               (n = TXCIE1 pf \<or> n = TXEN1 pf \<or> n = UDRIE1 pf) \<or>
             n = UCSZ12 pf \<and> bit mode 11))"
proof -
  obtain d16 d8 where "s' = usart_init_regs pf mode d16 d8 s"
    using assms(1) by (auto simp: usart_init_def split: sum.splits option.splits)
  then have "UCSR1C s' = ucast (ucsr1c_value pf mode)"
    and "UCSR1B s' = ucast (ucsr1b_value pf mode)"
    by (simp_all add: usart_init_regs_def Let_def write_UCSR1A_def write_UCSR1B_def
        write_UCSR1C_def write_UBRR1_def)
  then show ?thesis
    by (simp only: bit_ucsr1c_value bit_ucsr1b_value simp_thms)
qed

text \<open>
  The mode word 0x0E03 asks for a 9-bit frame (frame size 7) with receiver and
  transmitter: \<open>UCSR1C\<close> becomes 6 and \<open>UCSR1B\<close> becomes 252. Bit 2 of each register is
  a frame-size bit.
\<close>

theorem usart_init_control_bits_witness:
  "usart_init (atmega 16000000) 9600 0x0E03 reset =
     Inr (0, \<lparr>UCSR1A = 0, UCSR1B = 252, UCSR1C = 6, UBRR1 = 104, UDR1 = 0,
              hw_writes = [Write_UCSR1B 0, Write_UCSR1C 6, Write_UBRR1 104,
                           Write_UCSR1A 0, Write_UCSR1B 252],
              usart_fifo_tx = \<lparr>content = [], capacity = 4,
                                consumer_evth = Usart_txfifo_evth, consumer_evtm = 1\<rparr>,
              usart_fifo_rx = empty_fifo\<rparr>) \<and>
   bit_numbers_ok (atmega 16000000) \<and>
   bit (6 :: uint8_t) 2 \<and> bit (0x0E03 :: uint16_t) 10 \<and>
   bit (252 :: uint8_t) 2 \<and> bit (0x0E03 :: uint16_t) 11"
proof -
  let ?s = "\<lparr>UCSR1A = 0, UCSR1B = 252, UCSR1C = 6, UBRR1 = 104, UDR1 = 0,
              hw_writes = [Write_UCSR1B 0, Write_UCSR1C 6, Write_UBRR1 104,
                           Write_UCSR1A 0, Write_UCSR1B 252],
              usart_fifo_tx = \<lparr>content = [], capacity = 4,
                                consumer_evth = Usart_txfifo_evth, consumer_evtm = 1\<rparr>,
              usart_fifo_rx = empty_fifo\<rparr>"
  have run: "usart_init (atmega 16000000) 9600 0x0E03 reset = Inr (0, ?s)"
    by (simp add: run_defs)
  have ok: "bit_numbers_ok (atmega 16000000)"
    by (simp add: bit_numbers_ok_def atmega_def)
  have "bit (UCSR1C ?s) 2 \<longleftrightarrow> bit (0x0E03 :: uint16_t) 10"
    and "bit (UCSR1B ?s) 2 \<longleftrightarrow> bit (0x0E03 :: uint16_t) 11"
    using usart_init_control_bits [OF run ok, of 2] by (simp_all add: atmega_def)
  with run ok show ?thesis
    by simp
qed

subsection \<open>The interrupt handlers\<close>

lemma sint_ucast_byte: "sint (ucast (b :: uint8_t) :: int16_t) = uint b"
proof -
  have "0 \<le> uint b" and "uint b < 256"
    using uint_lt2p [of b] by simp_all
  then show ?thesis
    by (simp add: signed_ucast_eq signed_take_bit_eq_take_bit_shift take_bit_eq_mod)
qed

lemma ucast_ucast_byte: "(ucast (ucast (b :: uint8_t) :: int16_t) :: uint8_t) = b"
  by (rule bit_word_eqI) (simp add: bit_ucast_iff)

lemma udr_bytes_append: "udr_bytes (xs @ ys) = udr_bytes xs @ udr_bytes ys"
  by (induction xs rule: udr_bytes.induct) simp_all

lemma try_pop_byte_negative:
  "sint (fst (try_pop_byte fifo)) < 0 \<longleftrightarrow> content fifo = []"
  by (cases "content fifo") (simp_all add: try_pop_byte_def sint_ucast_byte)

text \<open>What one call of \<open>usart_send_next\<close> does, for any \<open>fifo_read_one\<close>.\<close>

lemma usart_send_next_effect:
  "usart_send_next pf s =
     s\<lparr>usart_fifo_tx := snd (fifo_read_one pf (usart_fifo_tx s)),
       hw_writes := hw_writes s @
         (if 0 \<le> sint (fst (fifo_read_one pf (usart_fifo_tx s)))
          then [Write_UDR1 (ucast (fst (fifo_read_one pf (usart_fifo_tx s))))] else [])\<rparr>"
  by (simp add: usart_send_next_def write_UDR1_def split: prod.splits)

text \<open>What it does with the queue of the spec.\<close>

lemma usart_send_next_queue:
  assumes "fifo_read_one pf = try_pop_byte"
  shows "(case content (usart_fifo_tx s) of
            [] \<Rightarrow> usart_send_next pf s = s
          | b # bs \<Rightarrow>
              usart_send_next pf s =
                s\<lparr>usart_fifo_tx := (usart_fifo_tx s)\<lparr>content := bs\<rparr>,
                  hw_writes := hw_writes s @ [Write_UDR1 b]\<rparr>)"
  by (cases "content (usart_fifo_tx s)")
    (simp_all add: usart_send_next_effect assms try_pop_byte_def sint_ucast_byte
      ucast_ucast_byte)

text \<open>
  C8. One invocation of the transmit-complete handler or of the data-register-empty
  handler calls \<open>fifo_read_one\<close> on the transmit queue once, and the queue it leaves is
  the one that call left. It appends at most one write to the list of register writes:
  the write of the returned byte to \<open>UDR1\<close> when the returned value is not negative, and
  nothing when it is negative, so that then every register and the list of writes are
  unchanged. Neither a register value nor the receive queue changes in either case.
  With the queue of the spec: an empty queue leaves the whole state unchanged, and
  otherwise exactly the oldest byte leaves the queue and is written to \<open>UDR1\<close>.
\<close>

theorem send_next_one_byte:
  assumes "h = USART1_TX_vect \<or> h = USART1_UDRE_vect"
  shows "usart_fifo_tx (h pf s) = snd (fifo_read_one pf (usart_fifo_tx s)) \<and>
         hw_writes (h pf s) = hw_writes s @
           (if 0 \<le> sint (fst (fifo_read_one pf (usart_fifo_tx s)))
            then [Write_UDR1 (ucast (fst (fifo_read_one pf (usart_fifo_tx s))))] else []) \<and>
         length (hw_writes (h pf s)) \<le> length (hw_writes s) + 1 \<and>
         length (udr_bytes (hw_writes (h pf s))) \<le> length (udr_bytes (hw_writes s)) + 1 \<and>
         (sint (fst (fifo_read_one pf (usart_fifo_tx s))) < 0 \<longrightarrow>
            hw_writes (h pf s) = hw_writes s) \<and>
         UCSR1A (h pf s) = UCSR1A s \<and> UCSR1B (h pf s) = UCSR1B s \<and>
         UCSR1C (h pf s) = UCSR1C s \<and> UBRR1 (h pf s) = UBRR1 s \<and> UDR1 (h pf s) = UDR1 s \<and>
         usart_fifo_rx (h pf s) = usart_fifo_rx s \<and>
         (fifo_read_one pf = try_pop_byte \<longrightarrow>
            (case content (usart_fifo_tx s) of
               [] \<Rightarrow> h pf s = s
             | b # bs \<Rightarrow>
                 h pf s = s\<lparr>usart_fifo_tx := (usart_fifo_tx s)\<lparr>content := bs\<rparr>,
                            hw_writes := hw_writes s @ [Write_UDR1 b]\<rparr>) \<and>
            length (content (usart_fifo_tx s)) \<le> length (content (usart_fifo_tx (h pf s))) + 1)"
proof -
  have h: "h pf s = usart_send_next pf s"
    using assms by (auto simp: USART1_TX_vect_def USART1_UDRE_vect_def)
  have general: "usart_fifo_tx (h pf s) = snd (fifo_read_one pf (usart_fifo_tx s)) \<and>
         hw_writes (h pf s) = hw_writes s @
           (if 0 \<le> sint (fst (fifo_read_one pf (usart_fifo_tx s)))
            then [Write_UDR1 (ucast (fst (fifo_read_one pf (usart_fifo_tx s))))] else []) \<and>
         UCSR1A (h pf s) = UCSR1A s \<and> UCSR1B (h pf s) = UCSR1B s \<and>
         UCSR1C (h pf s) = UCSR1C s \<and> UBRR1 (h pf s) = UBRR1 s \<and> UDR1 (h pf s) = UDR1 s \<and>
         usart_fifo_rx (h pf s) = usart_fifo_rx s"
    by (simp add: h usart_send_next_effect)
  then have count: "length (hw_writes (h pf s)) \<le> length (hw_writes s) + 1 \<and>
         length (udr_bytes (hw_writes (h pf s))) \<le> length (udr_bytes (hw_writes s)) + 1 \<and>
         (sint (fst (fifo_read_one pf (usart_fifo_tx s))) < 0 \<longrightarrow>
            hw_writes (h pf s) = hw_writes s)"
    by (simp add: udr_bytes_append)
  have queue: "(case content (usart_fifo_tx s) of
               [] \<Rightarrow> h pf s = s
             | b # bs \<Rightarrow>
                 h pf s = s\<lparr>usart_fifo_tx := (usart_fifo_tx s)\<lparr>content := bs\<rparr>,
                            hw_writes := hw_writes s @ [Write_UDR1 b]\<rparr>) \<and>
            length (content (usart_fifo_tx s)) \<le> length (content (usart_fifo_tx (h pf s))) + 1"
    if "fifo_read_one pf = try_pop_byte"
    using usart_send_next_queue [OF that, of s]
    by (cases "content (usart_fifo_tx s)") (simp_all add: h)
  from general count queue show ?thesis
    by blast
qed

text \<open>
  A transmit queue holding 5 and 6: the transmit-complete handler takes 5 and writes it
  to \<open>UDR1\<close>. An empty transmit queue: the data-register-empty handler changes nothing.
\<close>

theorem send_next_one_byte_witness:
  "USART1_TX_vect (atmega 16000000) (reset\<lparr>usart_fifo_tx := empty_fifo\<lparr>content := [5, 6]\<rparr>\<rparr>) =
     reset\<lparr>usart_fifo_tx := empty_fifo\<lparr>content := [6]\<rparr>, hw_writes := [Write_UDR1 5]\<rparr> \<and>
   USART1_UDRE_vect (atmega 16000000) reset = reset \<and>
   fifo_read_one (atmega 16000000) = try_pop_byte \<and>
   sint (fst (fifo_read_one (atmega 16000000) (usart_fifo_tx reset))) < 0"
proof -
  let ?pf = "atmega 16000000"
  have q: "fifo_read_one ?pf = try_pop_byte"
    by (simp add: atmega_def)
  have "USART1_TX_vect = USART1_TX_vect \<or> USART1_TX_vect = USART1_UDRE_vect"
    by simp
  from send_next_one_byte [OF this, of ?pf "reset\<lparr>usart_fifo_tx := empty_fifo\<lparr>content := [5, 6]\<rparr>\<rparr>"]
  have a: "USART1_TX_vect ?pf (reset\<lparr>usart_fifo_tx := empty_fifo\<lparr>content := [5, 6]\<rparr>\<rparr>) =
     reset\<lparr>usart_fifo_tx := empty_fifo\<lparr>content := [6]\<rparr>, hw_writes := [Write_UDR1 5]\<rparr>"
    by (simp add: q reset_def empty_fifo_def)
  have "USART1_UDRE_vect = USART1_TX_vect \<or> USART1_UDRE_vect = USART1_UDRE_vect"
    by simp
  from send_next_one_byte [OF this, of ?pf reset]
  have b: "USART1_UDRE_vect ?pf reset = reset"
    by (simp add: q reset_def empty_fifo_def)
  have c: "sint (fst (fifo_read_one ?pf (usart_fifo_tx reset))) < 0"
    by (simp add: q try_pop_byte_negative reset_def empty_fifo_def)
  from a b c q show ?thesis
    by simp
qed

text \<open>
  C9, with the queue of the spec. When the receive queue is full, the receive-complete
  handler returns the state it was given: the queue's contents, every register and the
  list of register writes are unchanged, and nothing reports the dropped byte. When the
  queue has room, the handler appends the byte read from \<open>UDR1\<close> to the receive queue
  and changes nothing else.
\<close>

theorem receive_complete:
  assumes "fifo_write_one pf = try_push_byte"
  shows "(capacity (usart_fifo_rx s) \<le> length (content (usart_fifo_rx s)) \<longrightarrow>
            USART1_RX_vect pf s = s) \<and>
         (length (content (usart_fifo_rx s)) < capacity (usart_fifo_rx s) \<longrightarrow>
            USART1_RX_vect pf s =
              s\<lparr>usart_fifo_rx :=
                  (usart_fifo_rx s)\<lparr>content := content (usart_fifo_rx s) @ [UDR1 s]\<rparr>\<rparr>) \<and>
         hw_writes (USART1_RX_vect pf s) = hw_writes s"
  by (simp add: USART1_RX_vect_def assms try_push_byte_def)

text \<open>
  A receive queue of capacity 4 and the byte 65 in \<open>UDR1\<close>: with 4 bytes queued the
  handler changes nothing, with 3 bytes queued it appends 65.
\<close>

theorem receive_complete_witness:
  "fifo_write_one (atmega 16000000) = try_push_byte \<and> capacity empty_fifo = 4 \<and>
   USART1_RX_vect (atmega 16000000)
       (reset\<lparr>UDR1 := 65, usart_fifo_rx := empty_fifo\<lparr>content := [1, 2, 3, 4]\<rparr>\<rparr>) =
     reset\<lparr>UDR1 := 65, usart_fifo_rx := empty_fifo\<lparr>content := [1, 2, 3, 4]\<rparr>\<rparr> \<and>
   USART1_RX_vect (atmega 16000000)
       (reset\<lparr>UDR1 := 65, usart_fifo_rx := empty_fifo\<lparr>content := [1, 2, 3]\<rparr>\<rparr>) =
     reset\<lparr>UDR1 := 65, usart_fifo_rx := empty_fifo\<lparr>content := [1, 2, 3, 65]\<rparr>\<rparr>"
proof -
  have q: "fifo_write_one (atmega 16000000) = try_push_byte"
    by (simp add: atmega_def)
  from receive_complete [OF q, of "reset\<lparr>UDR1 := 65, usart_fifo_rx := empty_fifo\<lparr>content := [1, 2, 3, 4]\<rparr>\<rparr>"]
    receive_complete [OF q, of "reset\<lparr>UDR1 := 65, usart_fifo_rx := empty_fifo\<lparr>content := [1, 2, 3]\<rparr>\<rparr>"]
    q
  show ?thesis
    by (simp add: reset_def empty_fifo_def)
qed

end
